theory Spec2Isabelle
  imports
    Complex_Main
    "HOL-Library.FSet"
    "HOL-Library.Finite_Map"
    "HOL-Library.Char_ord"
    "HOL-Library.List_Lexorder"
    "HOL-Library.Multiset"
begin

section \<open>The Multi-Set Alignment metric of \<^verbatim>\<open>eval.py\<close>\<close>

text \<open>
  The development embeds the three helpers of \<^verbatim>\<open>src/eval.py\<close>:
  \<^verbatim>\<open>compute_msa_per_label\<close> (lines 132-148), \<^verbatim>\<open>compute_msa\<close> (lines 151-202) and
  \<^verbatim>\<open>summarize_msa\<close> (lines 205-270).

  Conventions of the embedding:
  \<^item> Python's unbounded \<^verbatim>\<open>int\<close> is \<^typ>\<open>int\<close>; a \<^verbatim>\<open>float\<close> is idealised as a
    \<^typ>\<open>real\<close> (no rounding error, no overflow), with a separate value for
    \<^verbatim>\<open>float("inf")\<close> where the source produces it; the builtin \<^verbatim>\<open>round\<close>, which
    depends on the binary representation of a float, is a parameter of the
    embedding;
  \<^item> a \<^verbatim>\<open>dict\<close> from label names to point lists is a finite map, a \<^verbatim>\<open>set\<close> of
    labels a finite set; iterating over a Python set visits its members in an
    order the language leaves open, and the embedding visits them in ascending
    order;
  \<^item> every \<^verbatim>\<open>d[k]\<close> and every division of the source can raise; the embedding
    returns the exception as a value \<open>Inl e\<close>.
\<close>

subsection \<open>Data model\<close>

datatype py_error = KeyError string | ZeroDivisionError

text \<open>A point is the two-element list \<^verbatim>\<open>[x, y]\<close>.\<close>

type_synonym point = "real \<times> real"

type_synonym labeled_points = "(string, point list) fmap"

text \<open>The dict returned by \<^verbatim>\<open>compute_msa_per_label\<close>.\<close>

record label_match =
  average_euclidean_distance :: real
  num_matched :: int
  false_positives :: int
  false_negatives :: int

text \<open>
  An entry of \<^verbatim>\<open>point_metrics_per_label\<close>: the dict above with the key
  \<^verbatim>\<open>"label"\<close>, and for the entries of unmatched labels the keys \<^verbatim>\<open>"precision"\<close>
  and \<^verbatim>\<open>"recall"\<close> as well (absent, \<open>None\<close>, in the entries of matched labels).
\<close>

record point_metric = label_match +
  label :: string
  pm_precision :: "real option"
  pm_recall :: "real option"

text \<open>The dict \<^verbatim>\<open>metrics\<close> that \<^verbatim>\<open>compute_msa\<close> builds for one sample.\<close>

record sample_metrics =
  num_matched_labels :: int
  false_positive_labels :: int
  false_negative_labels :: int
  point_metrics_per_label :: "point_metric list"

subsection \<open>\<^verbatim>\<open>compute_msa_per_label\<close>\<close>

text \<open>\<^verbatim>\<open>np.linalg.norm(np.array(g) - np.array(p))\<close>\<close>

definition norm_diff :: "point \<Rightarrow> point \<Rightarrow> real" where
  "norm_diff g p = sqrt ((fst g - fst p)\<^sup>2 + (snd g - snd p)\<^sup>2)"

text \<open>
  The two nested loops of lines 134-137: row \<open>i\<close>, column \<open>j\<close> holds the distance
  between \<^verbatim>\<open>gts[i]\<close> and \<^verbatim>\<open>preds[j]\<close>.
\<close>

definition cost_matrix :: "point list \<Rightarrow> point list \<Rightarrow> real list list" where
  "cost_matrix gts preds = map (\<lambda>g. map (\<lambda>p. norm_diff g p) preds) gts"

text \<open>
  All lists of \<open>k\<close> pairs (row, column) whose rows are taken from \<open>rows\<close> in
  their order and whose columns are pairwise different members of \<open>cols\<close>.
\<close>

fun pairings :: "nat \<Rightarrow> nat list \<Rightarrow> nat list \<Rightarrow> (nat \<times> nat) list list" where
  "pairings 0 rows cols = [[]]"
| "pairings (Suc k) [] cols = []"
| "pairings (Suc k) (r # rows) cols =
     concat (map (\<lambda>c. map ((#) (r, c)) (pairings k rows (removeAll c cols))) cols)
     @ pairings (Suc k) rows cols"

definition pairing_cost :: "real list list \<Rightarrow> (nat \<times> nat) list \<Rightarrow> real" where
  "pairing_cost cost ps = sum_list (map (\<lambda>(i, j). cost ! i ! j) ps)"

text \<open>
  Modelled from the spec: \<^verbatim>\<open>linear_sum_assignment\<close> is imported from
  \<^verbatim>\<open>scipy.optimize\<close> (line 14) and its code is not part of the repository. The
  specification (section 4.1) asks for the solution of the rectangular linear
  assignment problem: a one-to-one pairing of size \<open>min n m\<close> of least total
  cost, every point of the smaller side paired with exactly one point of the
  larger side. The model searches all such pairings and returns the first one
  of least cost, as the pair of index arrays (row indices ascending) that the
  library returns.
\<close>

definition linear_sum_assignment :: "nat \<Rightarrow> nat \<Rightarrow> real list list \<Rightarrow> nat list \<times> nat list" where
  "linear_sum_assignment n m cost =
     (let best = arg_min_list (pairing_cost cost) (pairings (min n m) [0..<n] [0..<m])
      in (map fst best, map snd best))"

text \<open>The fancy indexing \<^verbatim>\<open>cost_matrix[gt_indices, pred_indices]\<close> of line 139.\<close>

definition index_pairs :: "real list list \<Rightarrow> nat list \<Rightarrow> nat list \<Rightarrow> real list" where
  "index_pairs cost gt_indices pred_indices =
     map (\<lambda>(i, j). cost ! i ! j) (zip gt_indices pred_indices)"

text \<open>\<^verbatim>\<open>np.mean\<close>\<close>

definition mean :: "real list \<Rightarrow> real" where
  "mean xs = sum_list xs / real (length xs)"

definition compute_msa_per_label :: "point list \<Rightarrow> point list \<Rightarrow> label_match" where
  "compute_msa_per_label gts preds =
     (let n = length gts; m = length preds;
          cost = cost_matrix gts preds;
          (gt_indices, pred_indices) = linear_sum_assignment n m cost;
          matched_distances = index_pairs cost gt_indices pred_indices;
          num_matched = length gt_indices
      in \<lparr> average_euclidean_distance =
             (if num_matched > 0 then mean matched_distances else 0),
           num_matched = int num_matched,
           false_positives = int m - int num_matched,
           false_negatives = int n - int num_matched \<rparr>)"

text \<open>
  The pairs of indices that \<^verbatim>\<open>compute_msa_per_label\<close> selects, and their costs
  (the local \<^verbatim>\<open>matched_distances\<close>), named for the statements below.
\<close>

definition selected_pairs :: "point list \<Rightarrow> point list \<Rightarrow> (nat \<times> nat) list" where
  "selected_pairs gts preds =
     (let (gt_indices, pred_indices) =
            linear_sum_assignment (length gts) (length preds) (cost_matrix gts preds)
      in zip gt_indices pred_indices)"

definition matched_distances :: "point list \<Rightarrow> point list \<Rightarrow> real list" where
  "matched_distances gts preds =
     (let (gt_indices, pred_indices) =
            linear_sum_assignment (length gts) (length preds) (cost_matrix gts preds)
      in index_pairs (cost_matrix gts preds) gt_indices pred_indices)"

subsection \<open>\<^verbatim>\<open>compute_msa\<close>\<close>

text \<open>\<^verbatim>\<open>d[k]\<close>\<close>

definition getitem :: "(string, 'a) fmap \<Rightarrow> string \<Rightarrow> py_error + 'a" where
  "getitem d k = (case fmlookup d k of None \<Rightarrow> Inl (KeyError k) | Some v \<Rightarrow> Inr v)"

text \<open>\<^verbatim>\<open>{"label": label, **compute_msa_per_label(gt_points, pred_points)}\<close>\<close>

definition with_label :: "string \<Rightarrow> label_match \<Rightarrow> point_metric" where
  "with_label l r =
     \<lparr> average_euclidean_distance = average_euclidean_distance r,
       num_matched = num_matched r,
       false_positives = false_positives r,
       false_negatives = false_negatives r,
       label = l, pm_precision = None, pm_recall = None \<rparr>"

text \<open>
  The loop of lines 164-174 over \<^verbatim>\<open>matched_ids\<close>. Its state is the list
  \<^verbatim>\<open>metrics["point_metrics_per_label"]\<close> and the two sets
  \<^verbatim>\<open>false_negative_labels\<close> and \<^verbatim>\<open>false_positive_labels\<close>, which the body
  mutates (written \<open>fn_labels\<close> and \<open>fp_labels\<close> here: the long names are the
  keys of \<^verbatim>\<open>metrics\<close>).
\<close>

fun matched_loop ::
  "labeled_points \<Rightarrow> labeled_points \<Rightarrow> string list \<Rightarrow>
   point_metric list \<times> string fset \<times> string fset \<Rightarrow>
   py_error + (point_metric list \<times> string fset \<times> string fset)" where
  "matched_loop gt_labels pred_labels [] st = Inr st"
| "matched_loop gt_labels pred_labels (l # ls) (pms, fn_labels, fp_labels) =
     (case getitem gt_labels l of
        Inl e \<Rightarrow> Inl e
      | Inr gt_points \<Rightarrow>
         (case getitem pred_labels l of
            Inl e \<Rightarrow> Inl e
          | Inr pred_points \<Rightarrow>
              if length gt_points > 0 \<and> length pred_points > 0 then
                matched_loop gt_labels pred_labels ls
                  (pms @ [with_label l (compute_msa_per_label gt_points pred_points)],
                   fn_labels, fp_labels)
              else if length gt_points \<le> 0 then
                matched_loop gt_labels pred_labels ls
                  (pms, finsert l fn_labels, fp_labels)
              else if length pred_points \<le> 0 then
                matched_loop gt_labels pred_labels ls
                  (pms, fn_labels, finsert l fp_labels)
              else
                matched_loop gt_labels pred_labels ls
                  (pms, fn_labels, fp_labels)))"

text \<open>The loop of lines 177-188 over \<^verbatim>\<open>false_negative_labels\<close>.\<close>

fun fn_loop :: "labeled_points \<Rightarrow> string list \<Rightarrow> point_metric list \<Rightarrow>
   py_error + point_metric list" where
  "fn_loop gt_labels [] pms = Inr pms"
| "fn_loop gt_labels (l # ls) pms =
     (case getitem gt_labels l of Inl e \<Rightarrow> Inl e | Inr gt_points \<Rightarrow>
        fn_loop gt_labels ls
          (pms @ [\<lparr> average_euclidean_distance = 0, num_matched = 0,
                    false_positives = 0, false_negatives = int (length gt_points),
                    label = l, pm_precision = Some 0, pm_recall = Some 0 \<rparr>]))"

text \<open>The loop of lines 189-200 over \<^verbatim>\<open>false_positive_labels\<close>.\<close>

fun fp_loop :: "labeled_points \<Rightarrow> string list \<Rightarrow> point_metric list \<Rightarrow>
   py_error + point_metric list" where
  "fp_loop pred_labels [] pms = Inr pms"
| "fp_loop pred_labels (l # ls) pms =
     (case getitem pred_labels l of Inl e \<Rightarrow> Inl e | Inr pred_points \<Rightarrow>
        fp_loop pred_labels ls
          (pms @ [\<lparr> average_euclidean_distance = 0, num_matched = 0,
                    false_positives = int (length pred_points), false_negatives = 0,
                    label = l, pm_precision = Some 0, pm_recall = Some 0 \<rparr>]))"

text \<open>
  The state of the two label sets when the loop over \<^verbatim>\<open>matched_ids\<close> has
  finished (line 175), named for the statements below.
\<close>

definition reclassified ::
  "labeled_points \<Rightarrow> labeled_points \<Rightarrow>
   py_error + (point_metric list \<times> string fset \<times> string fset)" where
  "reclassified gt_labels pred_labels =
     (let gt_ids = fmdom gt_labels; pred_ids = fmdom pred_labels;
          matched_ids = gt_ids |\<inter>| pred_ids;
          fn_labels = gt_ids |-| pred_ids;
          fp_labels = pred_ids |-| gt_ids
      in matched_loop gt_labels pred_labels (sorted_list_of_fset matched_ids)
           ([], fn_labels, fp_labels))"

text \<open>
  The body of the outer loop (lines 154-201), for one sample. The three label
  counts are stored in \<^verbatim>\<open>metrics\<close> at lines 158-163, before the loop over
  \<^verbatim>\<open>matched_ids\<close> runs.
\<close>

definition compute_msa_sample :: "labeled_points \<Rightarrow> labeled_points \<Rightarrow> py_error + sample_metrics" where
  "compute_msa_sample gt_labels pred_labels =
     (let gt_ids = fmdom gt_labels; pred_ids = fmdom pred_labels;
          matched_ids = gt_ids |\<inter>| pred_ids;
          fn_labels = gt_ids |-| pred_ids;
          fp_labels = pred_ids |-| gt_ids;
          metrics = \<lparr> num_matched_labels = int (fcard matched_ids),
                      false_positive_labels = int (fcard fp_labels),
                      false_negative_labels = int (fcard fn_labels),
                      point_metrics_per_label = [] \<rparr>
      in case matched_loop gt_labels pred_labels (sorted_list_of_fset matched_ids)
                ([], fn_labels, fp_labels) of
           Inl e \<Rightarrow> Inl e
         | Inr (pms1, fn_labels', fp_labels') \<Rightarrow>
            (case fn_loop gt_labels (sorted_list_of_fset fn_labels') pms1 of
               Inl e \<Rightarrow> Inl e
             | Inr pms2 \<Rightarrow>
                (case fp_loop pred_labels (sorted_list_of_fset fp_labels') pms2 of
                   Inl e \<Rightarrow> Inl e
                 | Inr pms3 \<Rightarrow> Inr (metrics \<lparr> point_metrics_per_label := pms3 \<rparr>))))"

text \<open>
  \<^verbatim>\<open>for gt_labels, pred_labels in zip(gt_list, pred_list)\<close>: \<^verbatim>\<open>zip\<close> stops at
  the end of the shorter list.
\<close>

fun compute_msa :: "labeled_points list \<Rightarrow> labeled_points list \<Rightarrow> py_error + sample_metrics list" where
  "compute_msa (gt_labels # gt_list) (pred_labels # pred_list) =
     (case compute_msa_sample gt_labels pred_labels of
        Inl e \<Rightarrow> Inl e
      | Inr metrics \<Rightarrow>
          (case compute_msa gt_list pred_list of
             Inl e \<Rightarrow> Inl e
           | Inr all_metrics \<Rightarrow> Inr (metrics # all_metrics)))"
| "compute_msa _ _ = Inr []"

subsection \<open>\<^verbatim>\<open>summarize_msa\<close>\<close>

text \<open>The dicts \<^verbatim>\<open>total_labels\<close> and \<^verbatim>\<open>total_points\<close> of lines 206-207.\<close>

record label_totals =
  matched :: int
  fp :: int
  fn :: int

record point_totals = label_totals +
  euclidean_distance :: real

text \<open>The body of the inner loop, lines 214-219.\<close>

definition add_point_metric :: "point_totals \<Rightarrow> point_metric \<Rightarrow> point_totals" where
  "add_point_metric total_points pm =
     total_points
       \<lparr> matched := matched total_points + num_matched pm,
         fp := fp total_points + false_positives pm,
         fn := fn total_points + false_negatives pm,
         euclidean_distance := euclidean_distance total_points
            + average_euclidean_distance pm * real_of_int (num_matched pm) \<rparr>"

text \<open>The body of the outer loop, lines 210-219.\<close>

definition add_metric ::
  "label_totals \<times> point_totals \<Rightarrow> sample_metrics \<Rightarrow> label_totals \<times> point_totals" where
  "add_metric tots metric =
     (case tots of (total_labels, total_points) \<Rightarrow>
       (total_labels
          \<lparr> matched := matched total_labels + num_matched_labels metric,
            fp := fp total_labels + false_positive_labels metric,
            fn := fn total_labels + false_negative_labels metric \<rparr>,
        foldl add_point_metric total_points (point_metrics_per_label metric)))"

text \<open>The two dicts when the loop of lines 209-219 has finished.\<close>

definition totals :: "sample_metrics list \<Rightarrow> label_totals \<times> point_totals" where
  "totals msa =
     foldl add_metric
       (\<lparr> matched = 0, fp = 0, fn = 0 \<rparr>,
        \<lparr> matched = 0, fp = 0, fn = 0, euclidean_distance = 0 \<rparr>) msa"

text \<open>The true division \<^verbatim>\<open>a / b\<close>, which raises when \<open>b\<close> is zero.\<close>

definition truediv :: "real \<Rightarrow> real \<Rightarrow> py_error + real" where
  "truediv a b = (if b = 0 then Inl ZeroDivisionError else Inr (a / b))"

text \<open>A float that may be \<^verbatim>\<open>float("inf")\<close>.\<close>

datatype py_float = Finite real | PosInf

text \<open>
  \<^verbatim>\<open>round(x, ndigits)\<close> is a builtin that works on the binary representation of
  a float: whether a value written \<open>0.575\<close> goes to \<open>0.57\<close> or to \<open>0.58\<close> depends on
  the side of the tie on which the nearest binary float lies, and the floats of
  numpy are rounded by another algorithm than those of Python. Nothing on the
  reals corresponds to that, so the builtin is a parameter \<open>py_round\<close> of the
  embedding: \<open>py_round x ndigits\<close> stands for \<^verbatim>\<open>round(x, ndigits)\<close>. Rounding
  leaves infinity as it is.
\<close>

fun round_float :: "(real \<Rightarrow> nat \<Rightarrow> real) \<Rightarrow> py_float \<Rightarrow> nat \<Rightarrow> py_float" where
  "round_float py_round (Finite x) ndigits = Finite (py_round x ndigits)"
| "round_float py_round PosInf ndigits = PosInf"

text \<open>The returned dict, lines 258-270.\<close>

record ratios =
  precision :: real
  recall :: real
  f1 :: real

record point_ratios = ratios +
  avg_euclidean_distance :: py_float

record summary =
  label_metrics :: ratios
  point_metrics :: point_ratios

definition summarize_msa ::
  "(real \<Rightarrow> nat \<Rightarrow> real) \<Rightarrow> sample_metrics list \<Rightarrow> py_error + summary" where
  "summarize_msa py_round msa =
     (case totals msa of (total_labels, total_points) \<Rightarrow>
      (case (if fp total_labels + matched total_labels > 0
             then truediv (of_int (matched total_labels))
                    (of_int (matched total_labels + fp total_labels))
             else Inr 0) of
         Inl e \<Rightarrow> Inl e
       | Inr label_precision \<Rightarrow>
      (case (if fn total_labels + matched total_labels > 0
             then truediv (of_int (matched total_labels))
                    (of_int (matched total_labels + fn total_labels))
             else Inr 0) of
         Inl e \<Rightarrow> Inl e
       | Inr label_recall \<Rightarrow>
      (case (if label_precision + label_recall > 0
             then truediv (2 * label_precision * label_recall)
                    (label_precision + label_recall)
             else Inr 0) of
         Inl e \<Rightarrow> Inl e
       | Inr label_f1 \<Rightarrow>
      (case (if fp total_points + matched total_points > 0
             then truediv (of_int (matched total_points))
                    (of_int (matched total_points + fp total_points))
             else Inr 0) of
         Inl e \<Rightarrow> Inl e
       | Inr point_precision \<Rightarrow>
      (case (if fn total_points + matched total_points > 0
             then truediv (of_int (matched total_points))
                    (of_int (matched total_points + fn total_points))
             else Inr 0) of
         Inl e \<Rightarrow> Inl e
       | Inr point_recall \<Rightarrow>
      (case (if point_precision + point_recall > 0
             then truediv (2 * point_precision * point_recall)
                    (point_precision + point_recall)
             else Inr 0) of
         Inl e \<Rightarrow> Inl e
       | Inr point_f1 \<Rightarrow>
      (case (if matched total_points > 0
             then (case truediv (euclidean_distance total_points)
                          (of_int (matched total_points)) of
                     Inl e \<Rightarrow> Inl e
                   | Inr q \<Rightarrow> Inr (Finite q))
             else Inr PosInf) of
         Inl e \<Rightarrow> Inl e
       | Inr avg_distance \<Rightarrow>
           Inr \<lparr> label_metrics =
                   \<lparr> precision = py_round label_precision 2,
                     recall = py_round label_recall 2,
                     f1 = py_round label_f1 2 \<rparr>,
                 point_metrics =
                   \<lparr> precision = py_round point_precision 2,
                     recall = py_round point_recall 2,
                     f1 = py_round point_f1 2,
                     avg_euclidean_distance = round_float py_round avg_distance 2 \<rparr> \<rparr>))))))))"

subsection \<open>Notions used in the statements\<close>

text \<open>
  The point list of a label in a mapping, empty when the label is absent: the
  points that a sample has for that label.
\<close>

definition points_of :: "labeled_points \<Rightarrow> string \<Rightarrow> point list" where
  "points_of d l = (case fmlookup d l of None \<Rightarrow> [] | Some ps \<Rightarrow> ps)"

text \<open>The three kinds of entry that \<^verbatim>\<open>compute_msa\<close> appends for a label.\<close>

definition matched_entry :: "labeled_points \<Rightarrow> labeled_points \<Rightarrow> string \<Rightarrow> point_metric" where
  "matched_entry gt_labels pred_labels l =
     with_label l (compute_msa_per_label (points_of gt_labels l) (points_of pred_labels l))"

definition fn_entry :: "labeled_points \<Rightarrow> string \<Rightarrow> point_metric" where
  "fn_entry gt_labels l =
     \<lparr> average_euclidean_distance = 0, num_matched = 0,
       false_positives = 0, false_negatives = int (length (points_of gt_labels l)),
       label = l, pm_precision = Some 0, pm_recall = Some 0 \<rparr>"

definition fp_entry :: "labeled_points \<Rightarrow> string \<Rightarrow> point_metric" where
  "fp_entry pred_labels l =
     \<lparr> average_euclidean_distance = 0, num_matched = 0,
       false_positives = int (length (points_of pred_labels l)), false_negatives = 0,
       label = l, pm_precision = Some 0, pm_recall = Some 0 \<rparr>"

text \<open>
  The contents of \<^verbatim>\<open>false_negative_labels\<close> and \<^verbatim>\<open>false_positive_labels\<close> after
  the loop over \<^verbatim>\<open>matched_ids\<close>, in closed form.
\<close>

definition fn_final :: "labeled_points \<Rightarrow> labeled_points \<Rightarrow> string fset" where
  "fn_final gt_labels pred_labels =
     (fmdom gt_labels |-| fmdom pred_labels) |\<union>|
     ffilter (\<lambda>l. points_of gt_labels l = []) (fmdom gt_labels |\<inter>| fmdom pred_labels)"

definition fp_final :: "labeled_points \<Rightarrow> labeled_points \<Rightarrow> string fset" where
  "fp_final gt_labels pred_labels =
     (fmdom pred_labels |-| fmdom gt_labels) |\<union>|
     ffilter (\<lambda>l. points_of gt_labels l \<noteq> [] \<and> points_of pred_labels l = [])
       (fmdom gt_labels |\<inter>| fmdom pred_labels)"


text \<open>
  The value of a guarded quotient of lines 222-246: the quotient when the
  denominator is positive, and \<open>0.0\<close> otherwise.
\<close>

definition ratio :: "int \<Rightarrow> int \<Rightarrow> real" where
  "ratio a b = (if b > 0 then real_of_int a / real_of_int b else 0)"

text \<open>The value of the guarded expression of lines 232-236 and 247-251.\<close>

definition f1_score :: "real \<Rightarrow> real \<Rightarrow> real" where
  "f1_score p r = (if p + r > 0 then 2 * p * r / (p + r) else 0)"

text \<open>
  What the statements assume of \<^verbatim>\<open>round(x, 2)\<close>: the result is a multiple of
  \<open>0.01\<close> and less than \<open>0.01\<close> away from \<open>x\<close>, that is, one of the two multiples
  of \<open>0.01\<close> next to \<open>x\<close>, and \<open>x\<close> itself when \<open>x\<close> is such a multiple. The rounding
  of Python's floats and that of numpy's both meet it.
\<close>

definition decimal_rounding :: "(real \<Rightarrow> nat \<Rightarrow> real) \<Rightarrow> bool" where
  "decimal_rounding py_round \<longleftrightarrow>
     (\<forall>x. (\<exists>k :: int. py_round x 2 = real_of_int k / 100) \<and> \<bar>py_round x 2 - x\<bar> < 1 / 100)"

text \<open>
  One function that meets it, for the examples: the nearest multiple of
  \<open>10\<^sup>-\<^sup>n\<close> of a real, a tie going to the even multiple.
\<close>

definition round_half_even :: "real \<Rightarrow> int" where
  "round_half_even x =
     (let f = \<lfloor>x\<rfloor>; d = x - of_int f
      in if d < 1 / 2 then f else if d > 1 / 2 then f + 1
         else if even f then f else f + 1)"

definition round_ties_even :: "real \<Rightarrow> nat \<Rightarrow> real" where
  "round_ties_even x ndigits = of_int (round_half_even (x * 10 ^ ndigits)) / 10 ^ ndigits"

section \<open>Properties\<close>

subsection \<open>The loops of \<^verbatim>\<open>compute_msa\<close> in closed form\<close>

lemma getitem_in_dom:
  "l |\<in>| fmdom d \<Longrightarrow> getitem d l = Inr (points_of d l)"
  by (auto simp: getitem_def points_of_def fmlookup_dom_iff)

lemma matched_loop_eq:
  "\<forall>l\<in>set ls. l |\<in>| fmdom gt_labels \<and> l |\<in>| fmdom pred_labels \<Longrightarrow>
   matched_loop gt_labels pred_labels ls (pms, fn_labels, fp_labels) =
     Inr (pms @ map (matched_entry gt_labels pred_labels)
                  (filter (\<lambda>l. points_of gt_labels l \<noteq> [] \<and> points_of pred_labels l \<noteq> []) ls),
          fn_labels |\<union>| fset_of_list (filter (\<lambda>l. points_of gt_labels l = []) ls),
          fp_labels |\<union>| fset_of_list
             (filter (\<lambda>l. points_of gt_labels l \<noteq> [] \<and> points_of pred_labels l = []) ls))"
proof (induction ls arbitrary: pms fn_labels fp_labels)
  case Nil
  then show ?case by simp
next
  case (Cons l ls)
  then show ?case
    by (auto simp: getitem_in_dom matched_entry_def)
qed

lemma fn_loop_eq:
  "\<forall>l\<in>set ls. l |\<in>| fmdom gt_labels \<Longrightarrow>
   fn_loop gt_labels ls pms = Inr (pms @ map (fn_entry gt_labels) ls)"
  by (induction ls arbitrary: pms) (auto simp: getitem_in_dom fn_entry_def)

lemma fp_loop_eq:
  "\<forall>l\<in>set ls. l |\<in>| fmdom pred_labels \<Longrightarrow>
   fp_loop pred_labels ls pms = Inr (pms @ map (fp_entry pred_labels) ls)"
  by (induction ls arbitrary: pms) (auto simp: getitem_in_dom fp_entry_def)

lemma fset_of_list_filter_sorted:
  "fset_of_list (filter P (sorted_list_of_fset S)) = ffilter P S"
  by (auto simp: fset_of_list.rep_eq)

lemma reclassified_eq:
  "reclassified gt_labels pred_labels =
     Inr (map (matched_entry gt_labels pred_labels)
            (filter (\<lambda>l. points_of gt_labels l \<noteq> [] \<and> points_of pred_labels l \<noteq> [])
               (sorted_list_of_fset (fmdom gt_labels |\<inter>| fmdom pred_labels))),
          fn_final gt_labels pred_labels, fp_final gt_labels pred_labels)"
  unfolding reclassified_def Let_def
  by (subst matched_loop_eq) (auto simp: fn_final_def fp_final_def fset_of_list_filter_sorted)

lemma compute_msa_sample_eq:
  "compute_msa_sample gt_labels pred_labels =
     Inr \<lparr> num_matched_labels = int (fcard (fmdom gt_labels |\<inter>| fmdom pred_labels)),
           false_positive_labels = int (fcard (fmdom pred_labels |-| fmdom gt_labels)),
           false_negative_labels = int (fcard (fmdom gt_labels |-| fmdom pred_labels)),
           point_metrics_per_label =
             map (matched_entry gt_labels pred_labels)
               (filter (\<lambda>l. points_of gt_labels l \<noteq> [] \<and> points_of pred_labels l \<noteq> [])
                  (sorted_list_of_fset (fmdom gt_labels |\<inter>| fmdom pred_labels)))
             @ map (fn_entry gt_labels) (sorted_list_of_fset (fn_final gt_labels pred_labels))
             @ map (fp_entry pred_labels) (sorted_list_of_fset (fp_final gt_labels pred_labels)) \<rparr>"
proof -
  have m: "matched_loop gt_labels pred_labels
             (sorted_list_of_fset (fmdom gt_labels |\<inter>| fmdom pred_labels))
             ([], fmdom gt_labels |-| fmdom pred_labels, fmdom pred_labels |-| fmdom gt_labels) =
           Inr (map (matched_entry gt_labels pred_labels)
            (filter (\<lambda>l. points_of gt_labels l \<noteq> [] \<and> points_of pred_labels l \<noteq> [])
               (sorted_list_of_fset (fmdom gt_labels |\<inter>| fmdom pred_labels))),
          fn_final gt_labels pred_labels, fp_final gt_labels pred_labels)"
    using reclassified_eq [of gt_labels pred_labels]
    by (simp add: reclassified_def Let_def)
  have f: "\<forall>l\<in>set (sorted_list_of_fset (fn_final gt_labels pred_labels)). l |\<in>| fmdom gt_labels"
    by (auto simp: fn_final_def)
  have p: "\<forall>l\<in>set (sorted_list_of_fset (fp_final gt_labels pred_labels)). l |\<in>| fmdom pred_labels"
    by (auto simp: fp_final_def)
  show ?thesis
    unfolding compute_msa_sample_def Let_def
    by (simp add: m fn_loop_eq [OF f] fp_loop_eq [OF p])
qed

lemma fcard_inter_minus:
  "fcard (A |\<inter>| B) + fcard (A |-| B) = fcard A"
proof -
  have "card (fset A \<inter> fset B) + card (fset A - fset B)
          = card ((fset A \<inter> fset B) \<union> (fset A - fset B))"
    by (rule card_Un_disjoint [symmetric]) auto
  also have "(fset A \<inter> fset B) \<union> (fset A - fset B) = fset A"
    by auto
  finally show ?thesis
    by (simp add: fcard.rep_eq)
qed

lemma label_with_label [simp]: "label (with_label l r) = l"
  by (simp add: with_label_def)

lemma label_matched_entry [simp]: "label (matched_entry g p l) = l"
  by (simp add: matched_entry_def)

lemma label_fn_entry [simp]: "label (fn_entry g l) = l"
  by (simp add: fn_entry_def)

lemma label_fp_entry [simp]: "label (fp_entry p l) = l"
  by (simp add: fp_entry_def)

lemma filter_label_map:
  assumes "distinct ls" and "\<And>x. label (e x) = x"
  shows "filter (\<lambda>r. label r = l) (map e ls) = (if l \<in> set ls then [e l] else [])"
  using assms(1) by (induction ls) (auto simp: assms(2) filter_empty_conv)

lemma distinct_sorted_list_of_fset [simp]: "distinct (sorted_list_of_fset S)"
  by (simp add: sorted_list_of_fset.rep_eq)

lemma points_of_Some: "fmlookup d l = Some ps \<Longrightarrow> points_of d l = ps"
  by (simp add: points_of_def)

subsection \<open>Label counts of a sample\<close>

text \<open>
  C8. For every sample, \<^verbatim>\<open>num_matched_labels + false_negative_labels\<close> is the
  number of distinct labels of the ground-truth mapping, and
  \<^verbatim>\<open>num_matched_labels + false_positive_labels\<close> is the number of distinct labels
  of the prediction mapping; \<^verbatim>\<open>compute_msa\<close> raises nothing on the way.
\<close>

theorem label_counts_partition:
  "\<exists>m. compute_msa_sample gt_labels pred_labels = Inr m
     \<and> num_matched_labels m + false_negative_labels m = int (fcard (fmdom gt_labels))
     \<and> num_matched_labels m + false_positive_labels m = int (fcard (fmdom pred_labels))"
proof -
  have g: "fcard (fmdom gt_labels |\<inter>| fmdom pred_labels)
             + fcard (fmdom gt_labels |-| fmdom pred_labels) = fcard (fmdom gt_labels)"
    by (rule fcard_inter_minus)
  have p: "fcard (fmdom gt_labels |\<inter>| fmdom pred_labels)
             + fcard (fmdom pred_labels |-| fmdom gt_labels) = fcard (fmdom pred_labels)"
    using fcard_inter_minus [of "fmdom pred_labels" "fmdom gt_labels"]
    by (simp add: inf_commute)
  show ?thesis
    unfolding compute_msa_sample_eq
    using g p by (simp flip: of_nat_add)
qed

text \<open>
  C2, as the specification states it, fails: \<^verbatim>\<open>false_negative_labels\<close> is not the
  size of the set after the reclassification. For the ground truth
  \<^verbatim>\<open>{"A": []}\<close> and the prediction \<^verbatim>\<open>{"A": [[0, 0]]}\<close> the loop over
  \<^verbatim>\<open>matched_ids\<close> leaves the set \<^verbatim>\<open>{"A"}\<close> of size 1, and the count that is
  returned is 0.
\<close>

theorem label_counts_after_reclassification_counterexample:
  "compute_msa_sample (fmupd ''A'' [] fmempty) (fmupd ''A'' [(0, 0)] fmempty) =
     Inr \<lparr> num_matched_labels = 1, false_positive_labels = 0, false_negative_labels = 0,
           point_metrics_per_label =
             [\<lparr> average_euclidean_distance = 0, num_matched = 0, false_positives = 0,
                false_negatives = 0, label = ''A'',
                pm_precision = Some 0, pm_recall = Some 0 \<rparr>] \<rparr>
   \<and> reclassified (fmupd ''A'' [] fmempty) (fmupd ''A'' [(0, 0)] fmempty) =
     Inr ([], {|''A''|}, {||})
   \<and> (0 :: int) \<noteq> int (fcard {|''A''|})"
  by (simp add: compute_msa_sample_def reclassified_def getitem_def
      sorted_list_of_fset.rep_eq fcard_finsert_if)

text \<open>
  C2, amended. For every sample, \<^verbatim>\<open>num_matched_labels\<close> is the size of the
  intersection of the two label sets, \<^verbatim>\<open>false_positive_labels\<close> and
  \<^verbatim>\<open>false_negative_labels\<close> are the sizes of the two set differences, all three
  taken before the loop over \<^verbatim>\<open>matched_ids\<close> adds labels to the two sets; the
  sets after the loop contain the initial ones, so the two counts are at most
  the sizes of the sets after the reclassification.
\<close>

theorem label_counts_before_reclassification:
  "\<exists>m pms fn_labels fp_labels.
     compute_msa_sample gt_labels pred_labels = Inr m
     \<and> reclassified gt_labels pred_labels = Inr (pms, fn_labels, fp_labels)
     \<and> num_matched_labels m = int (fcard (fmdom gt_labels |\<inter>| fmdom pred_labels))
     \<and> false_positive_labels m = int (fcard (fmdom pred_labels |-| fmdom gt_labels))
     \<and> false_negative_labels m = int (fcard (fmdom gt_labels |-| fmdom pred_labels))
     \<and> fmdom pred_labels |-| fmdom gt_labels |\<subseteq>| fp_labels
     \<and> fmdom gt_labels |-| fmdom pred_labels |\<subseteq>| fn_labels
     \<and> false_positive_labels m \<le> int (fcard fp_labels)
     \<and> false_negative_labels m \<le> int (fcard fn_labels)"
  unfolding compute_msa_sample_eq reclassified_eq
  by (auto simp: fn_final_def fp_final_def intro!: fcard_mono)

subsection \<open>Lists of unequal length\<close>

text \<open>
  C10. \<^verbatim>\<open>compute_msa\<close> raises nothing, whatever the lengths of the two lists, and
  returns one entry for each of the first \<open>min (len gt_list) (len pred_list)\<close>
  samples: the entries are those of the pairs that \<^verbatim>\<open>zip\<close> forms, and the result
  is the same when the longer list is cut to the length of the shorter.
\<close>

theorem compute_msa_zip_truncates:
  "\<exists>all_metrics. compute_msa gt_list pred_list = Inr all_metrics
     \<and> length all_metrics = min (length gt_list) (length pred_list)
     \<and> map Inr all_metrics = map (\<lambda>(g, p). compute_msa_sample g p) (zip gt_list pred_list)
     \<and> compute_msa (take (length pred_list) gt_list) (take (length gt_list) pred_list)
         = Inr all_metrics"
proof (induction gt_list arbitrary: pred_list)
  case Nil
  then show ?case by simp
next
  case (Cons gt_labels gt_list)
  show ?case
  proof (cases pred_list)
    case Nil
    then show ?thesis by simp
  next
    case (Cons pred_labels pred_rest)
    with Cons.IH [of pred_rest] show ?thesis
      by (auto simp: compute_msa_sample_eq)
  qed
qed

subsection \<open>Labels present in both mappings\<close>

text \<open>
  C7. Let a label be present in both mappings, with the point lists
  \<open>gt_points\<close> and \<open>pred_points\<close>. The loop over \<^verbatim>\<open>matched_ids\<close> raises nothing.
  It appends an entry for the label, the result of \<^verbatim>\<open>compute_msa_per_label\<close> on
  the two lists, exactly when both lists are non-empty (the only place where
  \<^verbatim>\<open>compute_msa_per_label\<close> is called). After the loop the label is in
  \<^verbatim>\<open>false_negative_labels\<close> exactly when \<open>gt_points\<close> is empty, whatever
  \<open>pred_points\<close> is, and in \<^verbatim>\<open>false_positive_labels\<close> exactly when \<open>gt_points\<close> is
  non-empty and \<open>pred_points\<close> is empty. In particular two empty lists never
  reach \<^verbatim>\<open>compute_msa_per_label\<close>.
\<close>

theorem point_matcher_guard:
  assumes "fmlookup gt_labels l = Some gt_points"
    and "fmlookup pred_labels l = Some pred_points"
  shows "\<exists>pms fn_labels fp_labels.
     reclassified gt_labels pred_labels = Inr (pms, fn_labels, fp_labels)
     \<and> filter (\<lambda>r. label r = l) pms =
          (if gt_points \<noteq> [] \<and> pred_points \<noteq> []
           then [with_label l (compute_msa_per_label gt_points pred_points)] else [])
     \<and> (l |\<in>| fn_labels \<longleftrightarrow> gt_points = [])
     \<and> (l |\<in>| fp_labels \<longleftrightarrow> gt_points \<noteq> [] \<and> pred_points = [])"
proof -
  have d: "l |\<in>| fmdom gt_labels" "l |\<in>| fmdom pred_labels"
    using assms by (auto intro: fmdomI)
  have g: "points_of gt_labels l = gt_points" and p: "points_of pred_labels l = pred_points"
    using assms by (simp_all add: points_of_Some)
  have "filter (\<lambda>r. label r = l)
          (map (matched_entry gt_labels pred_labels)
            (filter (\<lambda>l. points_of gt_labels l \<noteq> [] \<and> points_of pred_labels l \<noteq> [])
               (sorted_list_of_fset (fmdom gt_labels |\<inter>| fmdom pred_labels)))) =
        (if gt_points \<noteq> [] \<and> pred_points \<noteq> []
           then [with_label l (compute_msa_per_label gt_points pred_points)] else [])"
    using d g p
    by (subst filter_label_map) (auto simp: matched_entry_def)
  moreover have "l |\<in>| fn_final gt_labels pred_labels \<longleftrightarrow> gt_points = []"
    using d g by (auto simp: fn_final_def)
  moreover have "l |\<in>| fp_final gt_labels pred_labels \<longleftrightarrow> gt_points \<noteq> [] \<and> pred_points = []"
    using d g p by (auto simp: fp_final_def)
  ultimately show ?thesis
    unfolding reclassified_eq by simp
qed

theorem point_matcher_guard_witness:
  "fmlookup (fmupd ''A'' [] fmempty) ''A'' = Some ([] :: point list)
   \<and> fmlookup (fmupd ''B'' [(1, 1)] (fmupd ''A'' [] fmempty)) ''A'' = Some ([] :: point list)
   \<and> (\<exists>pms fn_labels fp_labels.
        reclassified (fmupd ''A'' [] fmempty) (fmupd ''B'' [(1, 1)] (fmupd ''A'' [] fmempty))
          = Inr (pms, fn_labels, fp_labels)
        \<and> filter (\<lambda>r. label r = ''A'') pms = []
        \<and> ''A'' |\<in>| fn_labels \<and> ''A'' |\<notin>| fp_labels)"
  using point_matcher_guard [of "fmupd ''A'' [] fmempty" "''A''" "[]"
      "fmupd ''B'' [(1, 1)] (fmupd ''A'' [] fmempty)" "[]"]
  by simp

text \<open>
  C9. Let a label be present in both mappings, with an empty ground-truth list
  and a non-empty prediction list. Then \<^verbatim>\<open>compute_msa\<close> emits exactly one entry
  for the label, and all its counts and its distance are zero: adding the
  entry leaves every point-level total of \<^verbatim>\<open>summarize_msa\<close> as it was, so the
  predicted points of the label are not counted as false positives.
\<close>

theorem empty_gt_entry_all_zero:
  assumes "fmlookup gt_labels l = Some []"
    and "fmlookup pred_labels l = Some pred_points"
    and "pred_points \<noteq> []"
  shows "\<exists>m. compute_msa_sample gt_labels pred_labels = Inr m
     \<and> filter (\<lambda>r. label r = l) (point_metrics_per_label m) =
          [\<lparr> average_euclidean_distance = 0, num_matched = 0,
             false_positives = 0, false_negatives = 0,
             label = l, pm_precision = Some 0, pm_recall = Some 0 \<rparr>]
     \<and> foldl add_point_metric total_points
          (filter (\<lambda>r. label r = l) (point_metrics_per_label m)) = total_points"
proof -
  have d: "l |\<in>| fmdom gt_labels" "l |\<in>| fmdom pred_labels"
    using assms by (auto intro: fmdomI)
  have g: "points_of gt_labels l = []" and p: "points_of pred_labels l = pred_points"
    using assms by (simp_all add: points_of_Some)
  have 1: "filter (\<lambda>r. label r = l)
          (map (matched_entry gt_labels pred_labels)
            (filter (\<lambda>l. points_of gt_labels l \<noteq> [] \<and> points_of pred_labels l \<noteq> [])
               (sorted_list_of_fset (fmdom gt_labels |\<inter>| fmdom pred_labels)))) = []"
    using g by (subst filter_label_map) auto
  have "l |\<in>| fn_final gt_labels pred_labels"
    using d g by (auto simp: fn_final_def)
  then have 2: "filter (\<lambda>r. label r = l)
      (map (fn_entry gt_labels) (sorted_list_of_fset (fn_final gt_labels pred_labels))) =
      [fn_entry gt_labels l]"
    by (subst filter_label_map) auto
  have "l |\<notin>| fp_final gt_labels pred_labels"
    using d g by (auto simp: fp_final_def)
  then have 3: "filter (\<lambda>r. label r = l)
      (map (fp_entry pred_labels) (sorted_list_of_fset (fp_final gt_labels pred_labels))) = []"
    by (subst filter_label_map) auto
  show ?thesis
    unfolding compute_msa_sample_eq
    by (simp add: 1 2 3) (simp add: fn_entry_def g add_point_metric_def)
qed

theorem empty_gt_entry_all_zero_witness:
  "fmlookup (fmupd ''A'' [] fmempty) ''A'' = Some ([] :: point list)
   \<and> fmlookup (fmupd ''A'' [(0, 0)] fmempty) ''A'' = Some [(0, 0) :: point]
   \<and> [(0, 0) :: point] \<noteq> []
   \<and> (\<exists>m. compute_msa_sample (fmupd ''A'' [] fmempty) (fmupd ''A'' [(0, 0)] fmempty) = Inr m
        \<and> filter (\<lambda>r. label r = ''A'') (point_metrics_per_label m) =
          [\<lparr> average_euclidean_distance = 0, num_matched = 0,
             false_positives = 0, false_negatives = 0,
             label = ''A'', pm_precision = Some 0, pm_recall = Some 0 \<rparr>])"
  using empty_gt_entry_all_zero [of "fmupd ''A'' [] fmempty" "''A''"
      "fmupd ''A'' [(0, 0)] fmempty" "[(0, 0)]"]
  by auto

text \<open>
  C1 asks that in the entry of every label \<^verbatim>\<open>num_matched + false_positives\<close> is
  the number of predicted points and \<^verbatim>\<open>num_matched + false_negatives\<close> the number
  of ground-truth points, also when one of the two lists is empty. The code
  does not keep the second equation for the ground truth \<^verbatim>\<open>{"A": [[0, 0]]}\<close> and
  the prediction \<^verbatim>\<open>{"A": []}\<close>: the label goes to \<^verbatim>\<open>false_positive_labels\<close>
  (line 174), whose entries count the points of the prediction (line 195), so
  the entry of the label has \<^verbatim>\<open>num_matched + false_negatives = 0\<close> while the
  ground truth has one point.
\<close>

theorem conservation_fails_on_empty_prediction:
  "compute_msa [fmupd ''A'' [(0, 0)] fmempty] [fmupd ''A'' [] fmempty] =
     Inr [\<lparr> num_matched_labels = 1, false_positive_labels = 0, false_negative_labels = 0,
            point_metrics_per_label =
              [\<lparr> average_euclidean_distance = 0, num_matched = 0, false_positives = 0,
                 false_negatives = 0, label = ''A'',
                 pm_precision = Some 0, pm_recall = Some 0 \<rparr>] \<rparr>]
   \<and> int (length (points_of (fmupd ''A'' [(0, 0)] fmempty) ''A'')) = 1"
  by (simp add: compute_msa_sample_def getitem_def points_of_def
      sorted_list_of_fset.rep_eq fcard_finsert_if)

text \<open>
  The two equations hold for every other entry: they can fail only for a label
  that is present in both mappings with exactly one of its two lists empty.
\<close>

lemma per_label_conserves:
  "num_matched (compute_msa_per_label gts preds) + false_positives (compute_msa_per_label gts preds)
     = int (length preds)"
  "num_matched (compute_msa_per_label gts preds) + false_negatives (compute_msa_per_label gts preds)
     = int (length gts)"
  by (simp_all add: compute_msa_per_label_def Let_def split: prod.split)

lemma conservation_elsewhere:
  assumes m: "compute_msa_sample gt_labels pred_labels = Inr m"
    and r: "r \<in> set (point_metrics_per_label m)"
    and ok: "\<not> (label r |\<in>| fmdom gt_labels |\<inter>| fmdom pred_labels
               \<and> (points_of gt_labels (label r) = []) \<noteq> (points_of pred_labels (label r) = []))"
  shows "num_matched r + false_positives r = int (length (points_of pred_labels (label r)))
       \<and> num_matched r + false_negatives r = int (length (points_of gt_labels (label r)))"
proof -
  have absent: "l |\<notin>| fmdom d \<Longrightarrow> points_of d l = []" for d :: labeled_points and l
    by (auto simp: points_of_def dest: fmdom_notD)
  from m r consider
    (matched) l where "r = matched_entry gt_labels pred_labels l"
    | (fn) l where "r = fn_entry gt_labels l" "l |\<in>| fn_final gt_labels pred_labels"
    | (fp) l where "r = fp_entry pred_labels l" "l |\<in>| fp_final gt_labels pred_labels"
    unfolding compute_msa_sample_eq by auto
  then show ?thesis
  proof cases
    case matched
    then show ?thesis
      by (simp add: matched_entry_def with_label_def per_label_conserves)
  next
    case fn
    with ok have "points_of pred_labels l = []"
      by (auto simp: fn_final_def absent)
    with fn show ?thesis
      by (simp add: fn_entry_def)
  next
    case fp
    with ok have "points_of gt_labels l = []"
      by (auto simp: fp_final_def absent)
    with fp show ?thesis
      by (simp add: fp_entry_def)
  qed
qed

subsection \<open>\<^verbatim>\<open>summarize_msa\<close> in closed form\<close>


lemma foldl_add_metric_labels:
  "matched (fst (foldl add_metric (ta, tb) msa)) =
     matched ta + sum_list (map num_matched_labels msa)"
  "fp (fst (foldl add_metric (ta, tb) msa)) =
     fp ta + sum_list (map false_positive_labels msa)"
  "fn (fst (foldl add_metric (ta, tb) msa)) =
     fn ta + sum_list (map false_negative_labels msa)"
  by (induction msa arbitrary: ta tb) (simp_all add: add_metric_def)



lemma totals_labels:
  "matched (fst (totals msa)) = sum_list (map num_matched_labels msa)"
  "fp (fst (totals msa)) = sum_list (map false_positive_labels msa)"
  "fn (fst (totals msa)) = sum_list (map false_negative_labels msa)"
  by (simp_all add: totals_def foldl_add_metric_labels)

text \<open>The guards of lines 222-256 keep every division away from zero.\<close>

lemma guarded_truediv:
  "(if b + a > 0 then truediv (real_of_int a) (real_of_int (a + b)) else Inr 0)
     = Inr (ratio a (a + b))"
  by (simp add: truediv_def ratio_def add.commute)

lemma guarded_f1:
  "(if p + r > 0 then truediv (2 * p * r) (p + r) else Inr 0) = Inr (f1_score p r)"
  by (simp add: truediv_def f1_score_def)

lemma guarded_avg:
  "(if m > 0
    then (case truediv d (real_of_int m) of Inl e \<Rightarrow> Inl e | Inr q \<Rightarrow> Inr (Finite q))
    else Inr PosInf) = Inr (if m > 0 then Finite (d / real_of_int m) else PosInf)"
  by (simp add: truediv_def)

lemma summarize_msa_eq:
  "summarize_msa py_round msa =
     (case totals msa of (total_labels, total_points) \<Rightarrow>
       Inr \<lparr> label_metrics =
               \<lparr> precision = py_round (ratio (matched total_labels)
                    (matched total_labels + fp total_labels)) 2,
                 recall = py_round (ratio (matched total_labels)
                    (matched total_labels + fn total_labels)) 2,
                 f1 = py_round (f1_score
                    (ratio (matched total_labels) (matched total_labels + fp total_labels))
                    (ratio (matched total_labels) (matched total_labels + fn total_labels))) 2 \<rparr>,
             point_metrics =
               \<lparr> precision = py_round (ratio (matched total_points)
                    (matched total_points + fp total_points)) 2,
                 recall = py_round (ratio (matched total_points)
                    (matched total_points + fn total_points)) 2,
                 f1 = py_round (f1_score
                    (ratio (matched total_points) (matched total_points + fp total_points))
                    (ratio (matched total_points) (matched total_points + fn total_points))) 2,
                 avg_euclidean_distance =
                   round_float py_round (if matched total_points > 0
                      then Finite (euclidean_distance total_points
                                     / real_of_int (matched total_points))
                      else PosInf) 2 \<rparr> \<rparr>)"
  unfolding summarize_msa_def
  by (simp only: guarded_truediv guarded_f1 guarded_avg sum.case split: prod.split)

text \<open>Rounding to two decimals.\<close>

lemma decimal_rounding_zero:
  assumes "decimal_rounding py_round"
  shows "py_round 0 2 = 0"
proof -
  from assms obtain k :: int where k: "py_round 0 2 = real_of_int k / 100"
    and "\<bar>py_round 0 2 - 0\<bar> < 1 / 100"
    unfolding decimal_rounding_def by blast
  then have "\<bar>real_of_int k\<bar> < 1"
    by simp
  then have "k = 0"
    by linarith
  with k show ?thesis by simp
qed



lemma round_ties_even_0 [simp]: "round_ties_even 0 n = 0"
  by (simp add: round_ties_even_def round_half_even_def)

lemma norm_diff_same_x: "norm_diff (x, a) (x, b) = \<bar>a - b\<bar>"
  by (simp add: norm_diff_def)

subsection \<open>Zero denominators\<close>

text \<open>
  C6. Let \<^verbatim>\<open>round(0.0, 2)\<close> be \<open>0.0\<close>. On the empty corpus \<^verbatim>\<open>summarize_msa\<close> returns
  precision, recall and F1 equal to \<open>0.0\<close> at the label level and at the point
  level, and the average distance \<^verbatim>\<open>inf\<close>. On every corpus it raises nothing,
  and each precision, recall and F1 whose denominator is zero is returned as
  \<open>0.0\<close>: the denominators are \<open>matched + fp\<close>, \<open>matched + fn\<close>, and for F1 the
  sum of the precision and the recall before they are rounded.
\<close>

theorem zero_division_defaults:
  assumes "py_round 0 2 = 0"
  shows "summarize_msa py_round [] =
     Inr \<lparr> label_metrics = \<lparr> precision = 0, recall = 0, f1 = 0 \<rparr>,
           point_metrics = \<lparr> precision = 0, recall = 0, f1 = 0,
                             avg_euclidean_distance = PosInf \<rparr> \<rparr>
   \<and> (\<exists>s. summarize_msa py_round msa = Inr s
      \<and> (matched (fst (totals msa)) + fp (fst (totals msa)) = 0
            \<longrightarrow> precision (label_metrics s) = 0)
      \<and> (matched (fst (totals msa)) + fn (fst (totals msa)) = 0
            \<longrightarrow> recall (label_metrics s) = 0)
      \<and> (ratio (matched (fst (totals msa))) (matched (fst (totals msa)) + fp (fst (totals msa)))
         + ratio (matched (fst (totals msa))) (matched (fst (totals msa)) + fn (fst (totals msa))) = 0
            \<longrightarrow> f1 (label_metrics s) = 0)
      \<and> (matched (snd (totals msa)) + fp (snd (totals msa)) = 0
            \<longrightarrow> precision (point_metrics s) = 0)
      \<and> (matched (snd (totals msa)) + fn (snd (totals msa)) = 0
            \<longrightarrow> recall (point_metrics s) = 0)
      \<and> (ratio (matched (snd (totals msa))) (matched (snd (totals msa)) + fp (snd (totals msa)))
         + ratio (matched (snd (totals msa))) (matched (snd (totals msa)) + fn (snd (totals msa))) = 0
            \<longrightarrow> f1 (point_metrics s) = 0))"
proof
  show "summarize_msa py_round [] =
     Inr \<lparr> label_metrics = \<lparr> precision = 0, recall = 0, f1 = 0 \<rparr>,
           point_metrics = \<lparr> precision = 0, recall = 0, f1 = 0,
                             avg_euclidean_distance = PosInf \<rparr> \<rparr>"
    by (simp add: summarize_msa_eq totals_def ratio_def f1_score_def assms)
next
  obtain ta tb where t: "totals msa = (ta, tb)"
    by (cases "totals msa")
  show "(\<exists>s. summarize_msa py_round msa = Inr s
      \<and> (matched (fst (totals msa)) + fp (fst (totals msa)) = 0
            \<longrightarrow> precision (label_metrics s) = 0)
      \<and> (matched (fst (totals msa)) + fn (fst (totals msa)) = 0
            \<longrightarrow> recall (label_metrics s) = 0)
      \<and> (ratio (matched (fst (totals msa))) (matched (fst (totals msa)) + fp (fst (totals msa)))
         + ratio (matched (fst (totals msa))) (matched (fst (totals msa)) + fn (fst (totals msa))) = 0
            \<longrightarrow> f1 (label_metrics s) = 0)
      \<and> (matched (snd (totals msa)) + fp (snd (totals msa)) = 0
            \<longrightarrow> precision (point_metrics s) = 0)
      \<and> (matched (snd (totals msa)) + fn (snd (totals msa)) = 0
            \<longrightarrow> recall (point_metrics s) = 0)
      \<and> (ratio (matched (snd (totals msa))) (matched (snd (totals msa)) + fp (snd (totals msa)))
         + ratio (matched (snd (totals msa))) (matched (snd (totals msa)) + fn (snd (totals msa))) = 0
            \<longrightarrow> f1 (point_metrics s) = 0))"
    unfolding summarize_msa_eq t
    by (simp add: f1_score_def assms) (simp add: ratio_def assms)
qed

text \<open>
  The theorem at a corpus of one sample without any label: all six
  denominators are zero there.
\<close>

theorem zero_division_defaults_witness:
  "round_ties_even 0 2 = 0
   \<and> matched (fst (totals [\<lparr> num_matched_labels = 0, false_positive_labels = 0,
        false_negative_labels = 0, point_metrics_per_label = [] \<rparr>]))
     + fp (fst (totals [\<lparr> num_matched_labels = 0, false_positive_labels = 0,
        false_negative_labels = 0, point_metrics_per_label = [] \<rparr>])) = 0
   \<and> (\<exists>s. summarize_msa round_ties_even [\<lparr> num_matched_labels = 0,
        false_positive_labels = 0, false_negative_labels = 0,
        point_metrics_per_label = [] \<rparr>] = Inr s
      \<and> precision (label_metrics s) = 0 \<and> recall (label_metrics s) = 0
      \<and> f1 (label_metrics s) = 0 \<and> precision (point_metrics s) = 0
      \<and> recall (point_metrics s) = 0 \<and> f1 (point_metrics s) = 0)"
proof -
  let ?m = "[\<lparr> num_matched_labels = 0, false_positive_labels = 0,
        false_negative_labels = 0, point_metrics_per_label = [] \<rparr>]"
  have t: "totals ?m = (\<lparr> matched = 0, fp = 0, fn = 0 \<rparr>,
        \<lparr> matched = 0, fp = 0, fn = 0, euclidean_distance = 0 \<rparr>)"
    by (simp add: totals_def add_metric_def)
  have z: "round_ties_even 0 2 = 0"
    by simp
  show ?thesis
    using zero_division_defaults [of round_ties_even ?m, OF z]
    by (simp add: t ratio_def)
qed

subsection \<open>The average distance of a corpus\<close>


text \<open>
  The choice of the rounding function in the example does not matter: no
  rounding to two decimals returns \<open>0.0625\<close>.
\<close>

lemma decimal_rounding_sixteenth:
  assumes "decimal_rounding py_round"
  shows "py_round (1 / 16) 2 \<noteq> 1 / 16"
proof
  assume e: "py_round (1 / 16) 2 = 1 / 16"
  from assms obtain k :: int where "py_round (1 / 16) 2 = real_of_int k / 100"
    unfolding decimal_rounding_def by blast
  with e have "real_of_int (4 * k) = real_of_int 25"
    by simp
  then have "4 * k = 25"
    by (simp only: of_int_eq_iff)
  then show False
    by presburger
qed



subsection \<open>The assignment of \<^verbatim>\<open>compute_msa_per_label\<close>\<close>

text \<open>The enumeration \<open>pairings\<close>: what it contains.\<close>

lemma pairings_Suc_Cons:
  "ps \<in> set (pairings (Suc k) (r # rows) cols) \<longleftrightarrow>
     (\<exists>c qs. c \<in> set cols \<and> qs \<in> set (pairings k rows (removeAll c cols)) \<and> ps = (r, c) # qs)
     \<or> ps \<in> set (pairings (Suc k) rows cols)"
  by (simp add: image_iff) blast

declare pairings.simps(3) [simp del]

lemma pairings_length:
  "ps \<in> set (pairings k rows cols) \<Longrightarrow> length ps = k"
proof (induction k rows cols arbitrary: ps rule: pairings.induct)
  case (3 k r rows cols)
  then show ?case
    unfolding pairings_Suc_Cons by fastforce
qed simp_all

lemma pairings_cols:
  "ps \<in> set (pairings k rows cols) \<Longrightarrow> distinct (map snd ps) \<and> set (map snd ps) \<subseteq> set cols"
proof (induction k rows cols arbitrary: ps rule: pairings.induct)
  case (3 k r rows cols)
  from "3.prems" consider
    (take) c qs where "c \<in> set cols" "qs \<in> set (pairings k rows (removeAll c cols))" "ps = (r, c) # qs"
    | (skip) "ps \<in> set (pairings (Suc k) rows cols)"
    unfolding pairings_Suc_Cons by blast
  then show ?case
  proof cases
    case take
    from "3.IH"(1) [OF take(1,2)] take show ?thesis by auto
  next
    case skip
    from "3.IH"(2) [OF skip] show ?thesis .
  qed
qed simp_all

lemma pairings_rows:
  "ps \<in> set (pairings k rows cols) \<Longrightarrow> sorted_wrt (<) rows \<Longrightarrow>
   sorted_wrt (<) (map fst ps) \<and> set (map fst ps) \<subseteq> set rows"
proof (induction k rows cols arbitrary: ps rule: pairings.induct)
  case (3 k r rows cols)
  from "3.prems" have s: "sorted_wrt (<) rows" and r: "\<forall>x\<in>set rows. r < x"
    by auto
  from "3.prems" consider
    (take) c qs where "c \<in> set cols" "qs \<in> set (pairings k rows (removeAll c cols))" "ps = (r, c) # qs"
    | (skip) "ps \<in> set (pairings (Suc k) rows cols)"
    unfolding pairings_Suc_Cons by blast
  then show ?case
  proof cases
    case take
    from "3.IH"(1) [OF take(1,2) s] take r show ?thesis by auto
  next
    case skip
    from "3.IH"(2) [OF skip s] show ?thesis by auto
  qed
qed simp_all

lemma pairings_nonempty:
  "k \<le> length rows \<Longrightarrow> k \<le> length cols \<Longrightarrow> distinct cols \<Longrightarrow> pairings k rows cols \<noteq> []"
proof (induction k rows cols rule: pairings.induct)
  case (3 k r rows cols)
  from "3.prems" obtain c cs where c: "cols = c # cs"
    by (cases cols) auto
  with "3.prems" have "k \<le> length (removeAll c cols)" "distinct (removeAll c cols)"
    by (auto simp: distinct_removeAll)
  with "3.IH"(1) [of c] "3.prems" c have "pairings k rows (removeAll c cols) \<noteq> []"
    by auto
  then obtain qs where "qs \<in> set (pairings k rows (removeAll c cols))"
    by (cases "pairings k rows (removeAll c cols)") auto
  with c have "(r, c) # qs \<in> set (pairings (Suc k) (r # rows) cols)"
    unfolding pairings_Suc_Cons by auto
  then show ?case by auto
qed simp_all

lemma pairings_complete:
  "sorted_wrt (<) rows \<Longrightarrow> sorted_wrt (<) (map fst ps) \<Longrightarrow> set (map fst ps) \<subseteq> set rows \<Longrightarrow>
   distinct (map snd ps) \<Longrightarrow> set (map snd ps) \<subseteq> set cols \<Longrightarrow> length ps = k \<Longrightarrow>
   ps \<in> set (pairings k rows cols)"
proof (induction k rows cols arbitrary: ps rule: pairings.induct)
  case (1 rows cols)
  then show ?case by simp
next
  case (2 k cols)
  then show ?case by auto
next
  case (3 k r rows cols)
  from "3.prems" obtain i j qs where ps: "ps = (i, j) # qs"
    by (cases ps) auto
  from "3.prems" have s: "sorted_wrt (<) rows" and r: "\<forall>x\<in>set rows. r < x"
    by auto
  show ?case
  proof (cases "i = r")
    case True
    have j: "j \<in> set cols" using "3.prems" ps by simp
    have "qs \<in> set (pairings k rows (removeAll j cols))"
    proof (rule "3.IH"(1) [OF j s])
      show "sorted_wrt (<) (map fst qs)" using "3.prems" ps by simp
      show "set (map fst qs) \<subseteq> set rows"
      proof
        fix x assume x: "x \<in> set (map fst qs)"
        with "3.prems"(2) ps True have "r < x" by auto
        moreover from x "3.prems"(3) ps have "x \<in> set (r # rows)" by auto
        ultimately show "x \<in> set rows" by simp
      qed
      show "distinct (map snd qs)" using "3.prems" ps by simp
      show "set (map snd qs) \<subseteq> set (removeAll j cols)"
        using "3.prems"(4,5) ps by auto
      show "length qs = k" using "3.prems" ps by simp
    qed
    with j show ?thesis unfolding pairings_Suc_Cons ps True by blast
  next
    case False
    with "3.prems" ps have i: "i \<in> set rows" by auto
    have "set (map fst ps) \<subseteq> set rows"
    proof
      fix x assume x: "x \<in> set (map fst ps)"
      with "3.prems"(2) ps have "i \<le> x" by auto
      with i r have "x \<noteq> r" by auto
      with x "3.prems"(3) show "x \<in> set rows" by auto
    qed
    with "3.IH"(2) [OF s "3.prems"(2) _ "3.prems"(4,5,6)]
    show ?thesis unfolding pairings_Suc_Cons by simp
  qed
qed

text \<open>The candidates among which the model of \<^verbatim>\<open>linear_sum_assignment\<close> chooses.\<close>

lemma candidates_nonempty: "pairings (min n m) [0..<n] [0..<m] \<noteq> []"
  by (rule pairings_nonempty) simp_all

lemma sorted_wrt_upt: "sorted_wrt (<) [0..<n]"
  by (simp add: strict_sorted_iff)

lemma best_in_candidates:
  "arg_min_list f (pairings (min n m) [0..<n] [0..<m]) \<in> set (pairings (min n m) [0..<n] [0..<m])"
  by (rule arg_min_list_in) (rule candidates_nonempty)

lemma best_least:
  "c \<in> set (pairings (min n m) [0..<n] [0..<m]) \<Longrightarrow>
   f (arg_min_list f (pairings (min n m) [0..<n] [0..<m])) \<le> (f c :: real)"
  by (simp add: f_arg_min_list_f candidates_nonempty)

lemma selected_pairs_eq:
  "selected_pairs gts preds =
     arg_min_list (pairing_cost (cost_matrix gts preds))
       (pairings (min (length gts) (length preds)) [0..<length gts] [0..<length preds])"
  by (simp add: selected_pairs_def linear_sum_assignment_def Let_def zip_map_fst_snd)

lemma selected_pairs_valid:
  "length (selected_pairs gts preds) = min (length gts) (length preds)"
  "sorted_wrt (<) (map fst (selected_pairs gts preds))"
  "distinct (map fst (selected_pairs gts preds))"
  "distinct (map snd (selected_pairs gts preds))"
  "set (map fst (selected_pairs gts preds)) \<subseteq> {..<length gts}"
  "set (map snd (selected_pairs gts preds)) \<subseteq> {..<length preds}"
proof -
  let ?n = "length gts" and ?m = "length preds"
  have b: "selected_pairs gts preds \<in> set (pairings (min ?n ?m) [0..<?n] [0..<?m])"
    unfolding selected_pairs_eq by (rule best_in_candidates)
  show "length (selected_pairs gts preds) = min ?n ?m"
    using pairings_length [OF b] .
  show s: "sorted_wrt (<) (map fst (selected_pairs gts preds))"
    using pairings_rows [OF b sorted_wrt_upt] by simp
  then show "distinct (map fst (selected_pairs gts preds))"
    by (simp add: strict_sorted_iff)
  show "distinct (map snd (selected_pairs gts preds))"
    using pairings_cols [OF b] by simp
  show "set (map fst (selected_pairs gts preds)) \<subseteq> {..<?n}"
    using pairings_rows [OF b sorted_wrt_upt] by auto
  show "set (map snd (selected_pairs gts preds)) \<subseteq> {..<?m}"
    using pairings_cols [OF b] by auto
qed

lemma matched_distances_eq:
  "matched_distances gts preds =
     map (\<lambda>(i, j). cost_matrix gts preds ! i ! j) (selected_pairs gts preds)"
  by (simp add: matched_distances_def selected_pairs_def index_pairs_def split: prod.split)

lemma cost_matrix_nth:
  "i < length gts \<Longrightarrow> j < length preds \<Longrightarrow>
   cost_matrix gts preds ! i ! j = norm_diff (gts ! i) (preds ! j)"
  by (simp add: cost_matrix_def)

lemma pairing_cost_in_range:
  assumes "\<forall>(i, j)\<in>set ps. i < length gts \<and> j < length preds"
  shows "pairing_cost (cost_matrix gts preds) ps =
         sum_list (map (\<lambda>(i, j). norm_diff (gts ! i) (preds ! j)) ps)"
  unfolding pairing_cost_def
  using assms by (intro arg_cong [where f = sum_list] map_cong) (auto simp: cost_matrix_nth)

lemma per_label_example:
  "compute_msa_per_label [(0, 0), (0, 10)] [(0, 1)] =
     \<lparr> average_euclidean_distance = 1, num_matched = 1,
       false_positives = 0, false_negatives = 1 \<rparr>"
  by (simp add: compute_msa_per_label_def cost_matrix_def norm_diff_same_x
      linear_sum_assignment_def pairing_cost_def index_pairs_def mean_def
      pairings.simps(3) upt_rec [of 0 2] upt_rec [of 1 2] upt_rec [of 0 1])

lemma lsa_eq:
  "linear_sum_assignment (length gts) (length preds) (cost_matrix gts preds) =
     (map fst (selected_pairs gts preds), map snd (selected_pairs gts preds))"
  by (simp add: selected_pairs_eq linear_sum_assignment_def Let_def)

lemma compute_msa_per_label_eq:
  "compute_msa_per_label gts preds =
     \<lparr> average_euclidean_distance =
         (if min (length gts) (length preds) > 0 then mean (matched_distances gts preds) else 0),
       num_matched = int (min (length gts) (length preds)),
       false_positives = int (length preds) - int (min (length gts) (length preds)),
       false_negatives = int (length gts) - int (min (length gts) (length preds)) \<rparr>"
  unfolding compute_msa_per_label_def matched_distances_def Let_def lsa_eq prod.case
  by (simp only: length_map selected_pairs_valid(1))

lemma matched_distances_norm_diff:
  "matched_distances gts preds =
     map (\<lambda>(i, j). norm_diff (gts ! i) (preds ! j)) (selected_pairs gts preds)"
proof -
  have "\<forall>(i, j)\<in>set (selected_pairs gts preds). i < length gts \<and> j < length preds"
    using selected_pairs_valid(5,6) [of gts preds] by fastforce
  then show ?thesis
    unfolding matched_distances_eq
    by (intro map_cong) (auto simp: cost_matrix_nth)
qed

text \<open>
  C4. For non-empty point lists with \<open>n\<close> ground-truth and \<open>m\<close> predicted points,
  \<^verbatim>\<open>compute_msa_per_label\<close> returns \<open>num_matched = min n m\<close>,
  \<open>false_positives = m - num_matched\<close> and \<open>false_negatives = n - num_matched\<close>,
  whatever the distances are (nothing in the function compares a distance with
  a threshold). The selected pairs are \<open>min n m\<close> pairs of indices in range, no
  ground-truth point and no predicted point in two of them, and
  \<^verbatim>\<open>average_euclidean_distance\<close> is the sum of the Euclidean distances between the
  two points of each selected pair, divided by \<open>min n m\<close>.
\<close>

theorem point_matcher_counts:
  assumes "gts \<noteq> []" and "preds \<noteq> []"
  shows "num_matched (compute_msa_per_label gts preds) = int (min (length gts) (length preds))
    \<and> false_positives (compute_msa_per_label gts preds)
        = int (length preds) - num_matched (compute_msa_per_label gts preds)
    \<and> false_negatives (compute_msa_per_label gts preds)
        = int (length gts) - num_matched (compute_msa_per_label gts preds)
    \<and> length (selected_pairs gts preds) = min (length gts) (length preds)
    \<and> distinct (map fst (selected_pairs gts preds))
    \<and> distinct (map snd (selected_pairs gts preds))
    \<and> set (map fst (selected_pairs gts preds)) \<subseteq> {..<length gts}
    \<and> set (map snd (selected_pairs gts preds)) \<subseteq> {..<length preds}
    \<and> average_euclidean_distance (compute_msa_per_label gts preds)
        = sum_list (map (\<lambda>(i, j). sqrt ((fst (gts ! i) - fst (preds ! j))\<^sup>2
                                       + (snd (gts ! i) - snd (preds ! j))\<^sup>2))
                     (selected_pairs gts preds))
          / real (min (length gts) (length preds))"
proof -
  have pos: "0 < min (length gts) (length preds)"
    using assms by simp
  have d: "(\<lambda>(i, j). norm_diff (gts ! i) (preds ! j))
      = (\<lambda>(i, j). sqrt ((fst (gts ! i) - fst (preds ! j))\<^sup>2
                        + (snd (gts ! i) - snd (preds ! j))\<^sup>2))"
    by (simp add: norm_diff_def)
  have avg: "average_euclidean_distance (compute_msa_per_label gts preds)
        = sum_list (map (\<lambda>(i, j). sqrt ((fst (gts ! i) - fst (preds ! j))\<^sup>2
                                       + (snd (gts ! i) - snd (preds ! j))\<^sup>2))
                     (selected_pairs gts preds))
          / real (min (length gts) (length preds))"
    using pos
    by (simp add: compute_msa_per_label_eq mean_def matched_distances_norm_diff d
        selected_pairs_valid(1))
  have counts: "num_matched (compute_msa_per_label gts preds)
        = int (min (length gts) (length preds))"
    "false_positives (compute_msa_per_label gts preds)
        = int (length preds) - num_matched (compute_msa_per_label gts preds)"
    "false_negatives (compute_msa_per_label gts preds)
        = int (length gts) - num_matched (compute_msa_per_label gts preds)"
    by (simp_all add: compute_msa_per_label_eq)
  show ?thesis
    using counts avg selected_pairs_valid(1,3,4,5,6) [of gts preds] by blast
qed

text \<open>
  The theorem at one ground-truth point and two predicted points: the second
  predicted point, at distance 1, is selected, and not the first, at distance 5.
\<close>

theorem point_matcher_counts_witness:
  "[(0, 0)] \<noteq> ([] :: point list) \<and> [(3, 4), (0, 1)] \<noteq> ([] :: point list)
   \<and> num_matched (compute_msa_per_label [(0, 0)] [(3, 4), (0, 1)]) = 1
   \<and> false_positives (compute_msa_per_label [(0, 0)] [(3, 4), (0, 1)]) = 1
   \<and> false_negatives (compute_msa_per_label [(0, 0)] [(3, 4), (0, 1)]) = 0
   \<and> selected_pairs [(0, 0)] [(3, 4), (0, 1)] = [(0, 1)]
   \<and> average_euclidean_distance (compute_msa_per_label [(0, 0)] [(3, 4), (0, 1)]) = 1"
proof -
  have sel: "selected_pairs [(0, 0)] [(3, 4), (0, 1)] = [(0, 1)]"
    by (simp add: selected_pairs_eq cost_matrix_def norm_diff_def pairing_cost_def
        pairings.simps(3) upt_rec [of 0 2] upt_rec [of 1 2] upt_rec [of 0 1])
  have "num_matched (compute_msa_per_label [(0, 0)] [(3, 4), (0, 1)]) = 1
    \<and> false_positives (compute_msa_per_label [(0, 0)] [(3, 4), (0, 1)]) = 1
    \<and> false_negatives (compute_msa_per_label [(0, 0)] [(3, 4), (0, 1)]) = 0
    \<and> average_euclidean_distance (compute_msa_per_label [(0, 0)] [(3, 4), (0, 1)]) = 1"
    using point_matcher_counts [of "[(0, 0)]" "[(3, 4), (0, 1)]"]
    by (simp add: sel)
  with sel show ?thesis by simp
qed

lemma sum_list_sort_key:
  "sum_list (map g (sort_key f xs)) = (sum_list (map g xs) :: real)"
proof -
  have "mset (map g (sort_key f xs)) = mset (map g xs)"
    by simp
  then show ?thesis
    by (metis sum_mset_sum_list)
qed

lemma pairing_in_candidates:
  assumes len: "length ps = min n m"
    and df: "distinct (map fst ps)" and ds: "distinct (map snd ps)"
    and rng: "\<forall>(i, j)\<in>set ps. i < n \<and> j < m"
  shows "sort_key fst ps \<in> set (pairings (min n m) [0..<n] [0..<m])"
proof (rule pairings_complete)
  show "sorted_wrt (<) [0..<n]" by (rule sorted_wrt_upt)
  have "mset (map fst (sort_key fst ps)) = mset (map fst ps)"
    by simp
  then have "distinct (map fst (sort_key fst ps))"
    using df by (metis mset_eq_imp_distinct_iff)
  then show "sorted_wrt (<) (map fst (sort_key fst ps))"
    by (simp add: strict_sorted_iff)
  show "set (map fst (sort_key fst ps)) \<subseteq> set [0..<n]"
    using rng by auto
  have "mset (map snd (sort_key fst ps)) = mset (map snd ps)"
    by simp
  then show "distinct (map snd (sort_key fst ps))"
    using ds by (metis mset_eq_imp_distinct_iff)
  show "set (map snd (sort_key fst ps)) \<subseteq> set [0..<m]"
    using rng by auto
  show "length (sort_key fst ps) = min n m"
    using len by simp
qed

text \<open>
  C3. For non-empty point lists, the total distance of the pairs that
  \<^verbatim>\<open>compute_msa_per_label\<close> selects is at most the total distance of any
  one-to-one pairing \<open>ps\<close> of size \<open>min n m\<close> (pairs of indices in range, no row
  and no column used twice). The selection is itself such a pairing, its
  costs are the Euclidean distances of the paired points, and its total is
  \<^verbatim>\<open>average_euclidean_distance\<close> times \<open>min n m\<close>: so the total is the least one
  that a one-to-one pairing of that size can have.
\<close>

theorem point_matcher_optimal:
  assumes "gts \<noteq> []" and "preds \<noteq> []"
    and "length ps = min (length gts) (length preds)"
    and "distinct (map fst ps)" and "distinct (map snd ps)"
    and "\<forall>(i, j)\<in>set ps. i < length gts \<and> j < length preds"
  shows "sum_list (matched_distances gts preds)
           \<le> sum_list (map (\<lambda>(i, j). norm_diff (gts ! i) (preds ! j)) ps)
    \<and> matched_distances gts preds
         = map (\<lambda>(i, j). norm_diff (gts ! i) (preds ! j)) (selected_pairs gts preds)
    \<and> length (selected_pairs gts preds) = min (length gts) (length preds)
    \<and> distinct (map fst (selected_pairs gts preds))
    \<and> distinct (map snd (selected_pairs gts preds))
    \<and> set (map fst (selected_pairs gts preds)) \<subseteq> {..<length gts}
    \<and> set (map snd (selected_pairs gts preds)) \<subseteq> {..<length preds}
    \<and> average_euclidean_distance (compute_msa_per_label gts preds)
          * real (min (length gts) (length preds)) = sum_list (matched_distances gts preds)"
proof -
  let ?n = "length gts" and ?m = "length preds"
  let ?cost = "cost_matrix gts preds"
  let ?d = "\<lambda>(i, j). norm_diff (gts ! i) (preds ! j)"
  have sel_rng: "\<forall>(i, j)\<in>set (selected_pairs gts preds). i < ?n \<and> j < ?m"
    using selected_pairs_valid(5,6) [of gts preds] by fastforce
  have md: "matched_distances gts preds = map ?d (selected_pairs gts preds)"
    unfolding matched_distances_eq
    using sel_rng by (intro map_cong) (auto simp: cost_matrix_nth)
  have "sum_list (matched_distances gts preds) = pairing_cost ?cost (selected_pairs gts preds)"
    by (simp add: matched_distances_eq pairing_cost_def)
  also have "\<dots> \<le> pairing_cost ?cost (sort_key fst ps)"
    unfolding selected_pairs_eq
    by (rule best_least) (rule pairing_in_candidates [OF assms(3-6)])
  also have "\<dots> = pairing_cost ?cost ps"
    by (simp add: pairing_cost_def sum_list_sort_key)
  also have "\<dots> = sum_list (map ?d ps)"
    by (rule pairing_cost_in_range [OF assms(6)])
  finally have opt: "sum_list (matched_distances gts preds) \<le> sum_list (map ?d ps)" .
  have pos: "0 < min ?n ?m"
    using assms(1,2) by simp
  have avg: "average_euclidean_distance (compute_msa_per_label gts preds) * real (min ?n ?m)
      = sum_list (matched_distances gts preds)"
    using pos
    by (simp add: compute_msa_per_label_eq mean_def matched_distances_eq selected_pairs_valid(1))
  show ?thesis
    using opt md avg selected_pairs_valid(1,3,4,5,6) [of gts preds] by blast
qed

theorem point_matcher_optimal_witness:
  "[(0, 0), (0, 10)] \<noteq> ([] :: point list) \<and> [(0, 1)] \<noteq> ([] :: point list)
   \<and> length [(1 :: nat, 0 :: nat)] = min (length [(0, 0), (0, 10 :: real)]) (length [(0, 1 :: real)])
   \<and> distinct (map fst [(1 :: nat, 0 :: nat)]) \<and> distinct (map snd [(1 :: nat, 0 :: nat)])
   \<and> 1 < length [(0, 0), (0, 10 :: real)] \<and> 0 < length [(0, 1 :: real)]
   \<and> sum_list (matched_distances [(0, 0), (0, 10)] [(0, 1)]) \<le> 9
   \<and> average_euclidean_distance (compute_msa_per_label [(0, 0), (0, 10)] [(0, 1)]) = 1"
proof -
  have "sum_list (matched_distances [(0, 0), (0, 10)] [(0, 1)])
          \<le> sum_list (map (\<lambda>(i, j). norm_diff ([(0, 0), (0, 10)] ! i) ([(0, 1)] ! j)) [(1, 0)])"
    by (rule conjunct1 [OF point_matcher_optimal [of "[(0, 0), (0, 10)]" "[(0, 1)]" "[(1, 0)]"]])
       simp_all
  then have "sum_list (matched_distances [(0, 0), (0, 10)] [(0, 1)]) \<le> 9"
    by (simp add: norm_diff_same_x)
  then show ?thesis
    by (simp add: per_label_example)
qed

end
